theory Spec2Isabelle
  imports Complex_Main
begin

section \<open>Errors\<close>

text \<open>
  An exception of the Python code is a value: every function that can raise returns
  \<open>error + 'a\<close>, with \<open>Inl\<close> for the exception. \<open>IndexError\<close> is what torch raises
  for a dimension out of range; the other three are the error classes of the
  specification.
\<close>

datatype error = IndexError | ShapeMismatchError | InvalidStateError | InvalidArgumentError

section \<open>State-action value functions: \<open>machina/vfuncs/state_action_vfuncs/base.py\<close>\<close>

text \<open>
  A tensor is its shape and its elements in row-major order. Of a \<open>gym.Space\<close> the
  class reads the attribute \<open>shape\<close> only.
\<close>

record 'a tensor =
  shape :: "nat list"
  elems :: "'a list"

datatype space = Space (space_shape: "nat list")

text \<open>
  \<open>torch.Tensor.unsqueeze(dim)\<close>: a dimension of size one is inserted at \<open>dim\<close>, which
  ranges over \<open>[-rank - 1, rank]\<close> (a negative one counts from the end); outside that
  range torch raises IndexError. The elements are untouched.
\<close>

definition unsqueeze :: "int \<Rightarrow> 'a tensor \<Rightarrow> error + 'a tensor" where
  "unsqueeze d t =
     (let r = int (length (shape t));
          d' = (if d < 0 then d + r + 1 else d)
      in if 0 \<le> d' \<and> d' \<le> r
         then Inr (t\<lparr>shape := take (nat d') (shape t) @ [1] @ drop (nat d') (shape t)\<rparr>)
         else Inl IndexError)"

text \<open>
  The attributes \<open>__init__\<close> sets. \<open>dp_net\<close> exists only when \<open>data_parallel\<close> is true:
  it is the network wrapped by \<open>nn.DataParallel\<close> along \<open>parallel_dim\<close>.
\<close>

record ('n, 'h) BaseSAVfunc =
  ob_space :: space
  ac_space :: space
  net :: 'n
  rnn :: bool
  hs :: "'h option"
  data_parallel :: bool
  dp_net :: "('n \<times> int) option"
  dp_run :: bool

definition BaseSAVfunc_init ::
  "space \<Rightarrow> space \<Rightarrow> 'n \<Rightarrow> bool \<Rightarrow> bool \<Rightarrow> int \<Rightarrow> ('n, 'h) BaseSAVfunc" where
  "BaseSAVfunc_init ob ac nt r dp parallel_dim =
     \<lparr>ob_space = ob, ac_space = ac, net = nt, rnn = r, hs = None, data_parallel = dp,
      dp_net = (if dp then Some (nt, parallel_dim) else None), dp_run = False\<rparr>"

definition reset :: "('n, 'h) BaseSAVfunc \<Rightarrow> ('n, 'h) BaseSAVfunc" where
  "reset self = (if rnn self then self\<lparr>hs := None\<rparr> else self)"

text \<open>The loop \<open>for _ in range(k): obs = obs.unsqueeze(0)\<close>.\<close>

fun unsqueeze_times :: "nat \<Rightarrow> 'a tensor \<Rightarrow> error + 'a tensor" where
  "unsqueeze_times 0 t = Inr t"
| "unsqueeze_times (Suc k) t =
     (case unsqueeze 0 t of Inl e \<Rightarrow> Inl e | Inr t' \<Rightarrow> unsqueeze_times k t')"

definition additional_shape :: "('n, 'h) BaseSAVfunc \<Rightarrow> nat" where
  "additional_shape self = (if rnn self then 2 else 1)"

definition check_obs_shape :: "('n, 'h) BaseSAVfunc \<Rightarrow> 'a tensor \<Rightarrow> error + 'a tensor" where
  "check_obs_shape self obs =
     (if length (shape obs) < additional_shape self + length (space_shape (ob_space self))
      then unsqueeze_times
             (additional_shape self + length (space_shape (ob_space self)) - length (shape obs))
             obs
      else Inr obs)"

definition check_acs_shape :: "('n, 'h) BaseSAVfunc \<Rightarrow> 'a tensor \<Rightarrow> error + 'a tensor" where
  "check_acs_shape self acs =
     (if length (shape acs) < additional_shape self + length (space_shape (ac_space self))
      then unsqueeze_times
             (additional_shape self + length (space_shape (ac_space self)) - length (shape acs))
             acs
      else Inr acs)"

section \<open>Episodes and trajectories\<close>

text \<open>
  An episode maps the field names \<open>obs\<close>, \<open>acs\<close>, \<open>rews\<close>, \<open>dones\<close> and, once the
  transforms have run, \<open>next_obs\<close> and \<open>h_masks\<close> to one value per timestep. An
  observation or an action is a vector of reals: the floating-point numbers of numpy
  and torch are taken as exact reals throughout. All fields of one episode have the
  same length.
\<close>

type_synonym vec = "real list"

record episode =
  obs :: "vec list"
  acs :: "vec list"
  rews :: "real list"
  dones :: "bool list"
  next_obs :: "vec list option"
  h_masks :: "real list option"

text \<open>
  Modelled from the spec: the class \<open>Traj\<close> of \<open>machina.traj\<close>, which is not among the
  source files. A trajectory is the ordered collection of its episodes; \<open>registered\<close>
  says whether the flat view built by the last \<open>register_epis\<close> is still valid.
  \<open>add_epis\<close> appends and does not register; \<open>register_epis\<close> builds the flat view and
  fails with InvalidStateError when the episodes do not all have the same fields;
  \<open>add_traj\<close> appends the episodes of another trajectory and invalidates the view.
\<close>

record traj =
  epis :: "episode list"
  registered :: bool

definition Traj :: traj where
  "Traj = \<lparr>epis = [], registered = False\<rparr>"

definition add_epis :: "traj \<Rightarrow> episode list \<Rightarrow> traj" where
  "add_epis t es = t\<lparr>epis := epis t @ es, registered := False\<rparr>"

definition field_set :: "episode \<Rightarrow> bool \<times> bool" where
  "field_set e = (next_obs e \<noteq> None, h_masks e \<noteq> None)"

definition same_fields :: "episode list \<Rightarrow> bool" where
  "same_fields es =
     (case es of [] \<Rightarrow> True | e # rest \<Rightarrow> list_all (\<lambda>e'. field_set e' = field_set e) rest)"

definition register_epis :: "traj \<Rightarrow> error + traj" where
  "register_epis t =
     (if same_fields (epis t) then Inr (t\<lparr>registered := True\<rparr>) else Inl InvalidStateError)"

definition add_traj :: "traj \<Rightarrow> traj \<Rightarrow> traj" where
  "add_traj t other = t\<lparr>epis := epis t @ epis other, registered := False\<rparr>"

section \<open>Episode transforms\<close>

text \<open>
  Modelled from the spec: \<open>add_next_obs\<close> of \<open>machina.traj.epi_functional\<close>, which is
  not among the source files. In each episode \<open>next_obs\<close> is \<open>obs\<close> shifted one step
  forward, and the last entry repeats the last observation. The transform changes the
  trajectory it is given and returns it.
\<close>

definition shift_obs :: "'a list \<Rightarrow> 'a list" where
  "shift_obs xs = (case xs of [] \<Rightarrow> [] | _ # rest \<Rightarrow> rest @ [last xs])"

definition add_next_obs :: "traj \<Rightarrow> traj" where
  "add_next_obs t =
     t\<lparr>epis := map (\<lambda>e. e\<lparr>next_obs := Some (shift_obs (obs e))\<rparr>) (epis t),
       registered := False\<rparr>"

text \<open>
  Modelled from the spec: the horizon masks of \<open>machina.traj.epi_functional\<close>, which
  is not among the source files. In an episode of length \<open>L\<close>, timestep \<open>i\<close> gets the
  mask \<open>1\<close> if \<open>i + horizon \<le> L\<close> and \<open>0\<close> otherwise. \<open>compute_horizon_masks\<close> is
  the transform with the horizon as its argument, a Python integer: a horizon is a
  number of steps to look ahead, so the valid ones are the positive ones, and any
  other fails with InvalidArgumentError. \<open>compute_h_masks\<close> is the call of the script,
  \<open>ef.compute_h_masks(traj)\<close>, which gives no horizon: it sets the masks for the
  horizon the library itself supplies, and has no argument to refuse.
\<close>

definition horizon_mask :: "int \<Rightarrow> nat \<Rightarrow> real list" where
  "horizon_mask horizon L = map (\<lambda>i. if int i + horizon \<le> int L then 1 else 0) [0..<L]"

definition compute_h_masks :: "int \<Rightarrow> traj \<Rightarrow> traj" where
  "compute_h_masks supplied t =
     t\<lparr>epis := map (\<lambda>e. e\<lparr>h_masks := Some (horizon_mask supplied (length (obs e)))\<rparr>) (epis t),
       registered := False\<rparr>"

definition compute_horizon_masks :: "int \<Rightarrow> traj \<Rightarrow> error + traj" where
  "compute_horizon_masks horizon t =
     (if 1 \<le> horizon then Inr (compute_h_masks horizon t) else Inl InvalidArgumentError)"

section \<open>Generalized advantage estimation\<close>

text \<open>
  Modelled from the spec: the estimator behind \<open>GAEData.preprocess\<close> of \<open>machina.data\<close>,
  which is not among the source files. Over the steps \<open>(obs[t], rew[t], done[t])\<close> of
  one episode, from the last step backwards,
  \<^verbatim>\<open>delta[t] = rew[t] + gamma * V(obs[t+1]) * (1 - done[t]) - V(obs[t])\<close>,
  \<^verbatim>\<open>adv[t] = delta[t] + gamma * lambda * adv[t+1] * (1 - done[t])\<close> with the advantage
  after the last step \<open>0\<close>, and \<^verbatim>\<open>return[t] = adv[t] + V(obs[t])\<close>. The episode holds no
  observation after its last step; \<open>v_end\<close> is the value estimate used there. A \<open>gamma\<close>
  or \<open>lambda\<close> outside \<open>[0, 1]\<close> fails with InvalidArgumentError. The centering of the
  advantages over the whole dataset comes after this and is not part of it.
\<close>

fun gae_advs ::
  "real \<Rightarrow> real \<Rightarrow> ('ob \<Rightarrow> real) \<Rightarrow> real \<Rightarrow> ('ob \<times> real \<times> bool) list \<Rightarrow> real list" where
  "gae_advs gamma lam V v_end [] = []"
| "gae_advs gamma lam V v_end ((ob, rew, dn) # rest) =
     (let v_next = (case rest of [] \<Rightarrow> v_end | (ob', _) # _ \<Rightarrow> V ob');
          not_done = (if dn then 0 else 1);
          delta = rew + gamma * v_next * not_done - V ob;
          advs = gae_advs gamma lam V v_end rest;
          adv_next = (case advs of [] \<Rightarrow> 0 | a # _ \<Rightarrow> a)
      in (delta + gamma * lam * adv_next * not_done) # advs)"

definition gae_episode ::
  "real \<Rightarrow> real \<Rightarrow> (vec \<Rightarrow> real) \<Rightarrow> real \<Rightarrow> episode \<Rightarrow> error + (real list \<times> real list)" where
  "gae_episode gamma lam V v_end e =
     (if 0 \<le> gamma \<and> gamma \<le> 1 \<and> 0 \<le> lam \<and> lam \<le> 1
      then let advs = gae_advs gamma lam V v_end (zip (obs e) (zip (rews e) (dones e)))
           in Inr (advs, map (\<lambda>(a, ob). a + V ob) (zip advs (obs e)))
      else Inl InvalidArgumentError)"

section \<open>Sample episodes\<close>

text \<open>
  Episodes for the concrete runs below: scalar observations and actions, one list
  entry per timestep, and \<open>done\<close> at the last step only.
\<close>

definition raw_epi :: "real list \<Rightarrow> real list \<Rightarrow> real list \<Rightarrow> episode" where
  "raw_epi os as rs =
     \<lparr>obs = map (\<lambda>x. [x]) os, acs = map (\<lambda>x. [x]) as, rews = rs,
      dones = map (\<lambda>i. Suc i = length os) [0..<length os],
      next_obs = None, h_masks = None\<rparr>"

definition epi3 :: episode where "epi3 = raw_epi [0, 1, 2] [0, 0, 0] [1, 1, 1]"
definition epi5 :: episode where "epi5 = raw_epi [0, 1, 2, 3, 4] [0, 0, 0, 0, 0] [1, 1, 1, 1, 1]"
definition epi7 :: episode where
  "epi7 = raw_epi [0, 1, 2, 3, 4, 5, 6] [0, 0, 0, 0, 0, 0, 0] [1, 1, 1, 1, 1, 1, 1]"


section \<open>Normalization\<close>

text \<open>
  The four statistics the script holds in \<open>mean_obs\<close>, \<open>std_obs\<close>, \<open>mean_acs\<close> and
  \<open>std_acs\<close>: one entry per component of an observation or of an action.
\<close>

record stats =
  mean_obs :: vec
  std_obs :: vec
  mean_acs :: vec
  std_acs :: vec

text \<open>
  Modelled from the spec: \<open>normalize_obs_and_acs\<close> of \<open>machina.traj.epi_functional\<close>,
  which is not among the source files. Without statistics it computes the mean and
  the standard deviation of each component over all observations and over all actions
  of the trajectory, the deviation floored at a small \<open>eps\<close>; with statistics it takes
  them as they are. Either way it then replaces every \<open>x\<close> in \<open>obs\<close>, \<open>next_obs\<close> and
  \<open>acs\<close> by \<open>(x - mean) / std\<close>, in the trajectory it was given, and fails with
  ShapeMismatchError when a vector has not as many components as the statistics. It
  returns the trajectory and the statistics; the caller that passes
  \<open>return_statistic=False\<close> gets the trajectory alone.

  The standard deviation is the one of numpy, over the whole population. The
  statistics have as many components as the first vector has, and none when there is
  no vector; where a later vector is shorter, the shape check fails and the statistics
  computed from it are not used.
\<close>

definition mean :: "real list \<Rightarrow> real" where
  "mean xs = sum_list xs / real (length xs)"

definition std :: "real list \<Rightarrow> real" where
  "std xs = sqrt (mean (map (\<lambda>x. (x - mean xs)\<^sup>2) xs))"

definition vec_dim :: "vec list \<Rightarrow> nat" where
  "vec_dim xs = (case xs of [] \<Rightarrow> 0 | x # _ \<Rightarrow> length x)"

definition column :: "nat \<Rightarrow> vec list \<Rightarrow> real list" where
  "column j xs = map (\<lambda>x. x ! j) xs"

definition mean_vec :: "vec list \<Rightarrow> vec" where
  "mean_vec xs = map (\<lambda>j. mean (column j xs)) [0..<vec_dim xs]"

definition std_vec :: "real \<Rightarrow> vec list \<Rightarrow> vec" where
  "std_vec eps xs = map (\<lambda>j. max eps (std (column j xs))) [0..<vec_dim xs]"

definition compute_stats :: "real \<Rightarrow> traj \<Rightarrow> stats" where
  "compute_stats eps t =
     (let all_obs = concat (map obs (epis t));
          all_acs = concat (map acs (epis t))
      in \<lparr>mean_obs = mean_vec all_obs, std_obs = std_vec eps all_obs,
          mean_acs = mean_vec all_acs, std_acs = std_vec eps all_acs\<rparr>)"

definition normalize_vec :: "vec \<Rightarrow> vec \<Rightarrow> vec \<Rightarrow> vec" where
  "normalize_vec mu sd x = map (\<lambda>(xi, m, s). (xi - m) / s) (zip x (zip mu sd))"

definition normalize_epi :: "stats \<Rightarrow> episode \<Rightarrow> episode" where
  "normalize_epi st e =
     e\<lparr>obs := map (normalize_vec (mean_obs st) (std_obs st)) (obs e),
       next_obs := map_option (map (normalize_vec (mean_obs st) (std_obs st))) (next_obs e),
       acs := map (normalize_vec (mean_acs st) (std_acs st)) (acs e)\<rparr>"

definition dims_ok :: "nat \<Rightarrow> vec list \<Rightarrow> bool" where
  "dims_ok d xs = list_all (\<lambda>x. length x = d) xs"

definition epi_dims_ok :: "nat \<Rightarrow> nat \<Rightarrow> episode \<Rightarrow> bool" where
  "epi_dims_ok d_ob d_ac e =
     (dims_ok d_ob (obs e)
      \<and> (case next_obs e of None \<Rightarrow> True | Some n \<Rightarrow> dims_ok d_ob n)
      \<and> dims_ok d_ac (acs e))"

definition stats_dims_ok :: "stats \<Rightarrow> bool" where
  "stats_dims_ok st =
     (length (std_obs st) = length (mean_obs st) \<and> length (std_acs st) = length (mean_acs st))"

definition normalize_obs_and_acs :: "real \<Rightarrow> traj \<Rightarrow> stats option \<Rightarrow> error + traj \<times> stats" where
  "normalize_obs_and_acs eps t given =
     (let st = (case given of None \<Rightarrow> compute_stats eps t | Some st \<Rightarrow> st)
      in if stats_dims_ok st
            \<and> list_all (epi_dims_ok (length (mean_obs st)) (length (mean_acs st))) (epis t)
         then Inr (t\<lparr>epis := map (normalize_epi st) (epis t), registered := False\<rparr>, st)
         else Inl ShapeMismatchError)"


section \<open>The aggregation loop: \<open>example/run_mpc.py\<close>\<close>

text \<open>
  The collaborators of the script. \<open>train_dm\<close> is \<open>mpc.train_dm\<close> with the script's
  epoch count and batch size: from the trajectory, the dynamics model and the
  optimizer it gives the trained model and the optimizer's new state. \<open>sample\<close> is
  \<open>rl_sampler.sample\<close> with the planning policy built from the model's network and the
  statistics; its first argument, the number of the iteration, stands for everything
  else the sampler and the environment depend on. \<open>eps\<close> is the floor of the standard
  deviations and \<open>horizon\<close> the horizon the library supplies to \<open>compute_h_masks\<close>, to
  which the script gives none. A collaborator returns; an exception it raises ends the
  script and is outside these definitions.
\<close>

record ('m, 'o) env =
  train_dm :: "traj \<Rightarrow> 'm \<Rightarrow> 'o \<Rightarrow> 'm \<times> 'o"
  sample :: "int \<Rightarrow> 'm \<Rightarrow> stats \<Rightarrow> episode list"
  eps :: real
  horizon :: int

text \<open>
  What \<open>torch.save\<close> writes: the state of the dynamics model or of its optimizer.
  \<open>saved\<close> lists the writes in order: the value of \<open>counter_agg_iters\<close> at the write,
  the file name under \<open>models/\<close>, and the state written.
\<close>

datatype ('m, 'o) blob = DmState 'm | OptimState 'o

record ('m, 'o) mpc_state =
  traj :: traj
  dm :: 'm
  optim_dm :: 'o
  stats :: stats
  counter_agg_iters :: int
  max_rew :: real
  saved :: "(int \<times> string \<times> ('m, 'o) blob) list"

text \<open>
  Lines 121 to 129 and 151 to 154: the initial dataset, its statistics, and the
  variables of the loop. \<open>epis0\<close> are the episodes of the random policy after
  \<open>add_noise_to_init_obs\<close>; \<open>dm0\<close> and \<open>optim0\<close> are the untrained model and its
  optimizer.
\<close>

definition mpc_init ::
  "('m, 'o) env \<Rightarrow> 'm \<Rightarrow> 'o \<Rightarrow> episode list \<Rightarrow> error + ('m, 'o) mpc_state" where
  "mpc_init E dm0 optim0 epis0 =
     (let t = add_epis Traj epis0;
          t = add_next_obs t;
          t = compute_h_masks (horizon E) t
      in case normalize_obs_and_acs (eps E) t None of
           Inl e \<Rightarrow> Inl e
         | Inr (t, st) \<Rightarrow>
             (case register_epis t of
                Inl e \<Rightarrow> Inl e
              | Inr t \<Rightarrow>
                  Inr \<lparr>traj = t, dm = dm0, optim_dm = optim0, stats = st,
                       counter_agg_iters = 0, max_rew = - (1 / 1000000), saved = []\<rparr>))"

text \<open>
  Lines 166 to 174. \<open>normalize_obs_and_acs\<close> works on the trajectory it is given and
  returns it, so from line 171 on \<open>traj\<close> and \<open>curr_traj\<close> are two names of one object,
  the trajectory of the new episodes: \<open>curr_traj.register_epis()\<close> registers it and
  \<open>traj.add_traj(curr_traj)\<close> appends its episodes to itself. The trajectory \<open>traj\<close>
  named before line 171 is not read.
\<close>

definition merge_new :: "real \<Rightarrow> int \<Rightarrow> stats \<Rightarrow> episode list \<Rightarrow> error + traj" where
  "merge_new ep hz st new_epis =
     (let curr_traj = add_epis Traj new_epis;
          curr_traj = add_next_obs curr_traj;
          curr_traj = compute_h_masks hz curr_traj
      in case normalize_obs_and_acs ep curr_traj (Some st) of
           Inl e \<Rightarrow> Inl e
         | Inr (t, _) \<Rightarrow>
             (case register_epis t of
                Inl e \<Rightarrow> Inl e
              | Inr t \<Rightarrow> Inr (add_traj t t)))"

text \<open>
  \<open>np.mean\<close> of the episodes' reward sums. The mean of no number is nan, and a
  comparison with nan is false: \<open>None\<close> stands for it.
\<close>

definition np_mean :: "real list \<Rightarrow> real option" where
  "np_mean xs = (if xs = [] then None else Some (sum_list xs / real (length xs)))"

definition mean_rew_of :: "episode list \<Rightarrow> real option" where
  "mean_rew_of new_epis = np_mean (map (\<lambda>epi. sum_list (rews epi)) new_epis)"

definition beats :: "real option \<Rightarrow> real \<Rightarrow> bool" where
  "beats mean_rew mx = (case mean_rew of None \<Rightarrow> False | Some m \<Rightarrow> m > mx)"

text \<open>
  One pass through the body of the loop, lines 156 to 198. The counters
  \<open>total_epi\<close> and \<open>total_step\<close> and the call of the logger feed the progress table
  only and are left out.
\<close>

definition agg_iter :: "('m, 'o) env \<Rightarrow> ('m, 'o) mpc_state \<Rightarrow> error + ('m, 'o) mpc_state" where
  "agg_iter E s =
     (let (dm', optim') = train_dm E (traj s) (dm s) (optim_dm s);
          new_epis = sample E (counter_agg_iters s) dm' (stats s)
      in case merge_new (eps E) (horizon E) (stats s) new_epis of
           Inl e \<Rightarrow> Inl e
         | Inr t \<Rightarrow>
             let mean_rew = mean_rew_of new_epis;
                 c = counter_agg_iters s;
                 best = beats mean_rew (max_rew s);
                 sv = saved s
                      @ (if best
                         then [(c, ''dm_max.pkl'', DmState dm'),
                               (c, ''optim_dm_max.pkl'', OptimState optim')]
                         else [])
                      @ [(c, ''dm_last.pkl'', DmState dm'),
                         (c, ''optim_dm_last.pkl'', OptimState optim')]
             in Inr (s\<lparr>traj := t, dm := dm', optim_dm := optim',
                       max_rew := (case mean_rew of
                                     None \<Rightarrow> max_rew s
                                   | Some m \<Rightarrow> if m > max_rew s then m else max_rew s),
                       saved := sv, counter_agg_iters := c + 1\<rparr>))"

text \<open>For the termination of the loop: a pass that returns has counted one iteration.\<close>

lemma agg_iter_counts:
  "agg_iter E s = Inr s' \<Longrightarrow> counter_agg_iters s' = counter_agg_iters s + 1"
  by (auto simp add: agg_iter_def Let_def split: prod.splits sum.splits)

text \<open>
  The loop \<open>while args.num_aggregation_iters > counter_agg_iters\<close>, line 155; \<open>n\<close> is
  \<open>args.num_aggregation_iters\<close>, a Python integer.
\<close>

function agg_loop :: "('m, 'o) env \<Rightarrow> int \<Rightarrow> ('m, 'o) mpc_state \<Rightarrow> error + ('m, 'o) mpc_state" where
  "agg_loop E n s =
     (if n > counter_agg_iters s
      then (case agg_iter E s of Inl e \<Rightarrow> Inl e | Inr s' \<Rightarrow> agg_loop E n s')
      else Inr s)"
  by pat_completeness auto
termination
  by (relation "measure (\<lambda>(E, n, s). nat (n - counter_agg_iters s))")
     (auto dest: agg_iter_counts)

declare agg_loop.simps [simp del]

definition mpc_main ::
  "('m, 'o) env \<Rightarrow> 'm \<Rightarrow> 'o \<Rightarrow> episode list \<Rightarrow> int \<Rightarrow> error + ('m, 'o) mpc_state" where
  "mpc_main E dm0 optim0 epis0 n =
     (case mpc_init E dm0 optim0 epis0 of Inl e \<Rightarrow> Inl e | Inr s \<Rightarrow> agg_loop E n s)"

text \<open>
  What is read off the list of writes: the iterations, counted from one, at which the
  checkpoint of the best model was written, and those at which the last model was.
\<close>

definition written_at :: "string \<Rightarrow> (int \<times> string \<times> ('m, 'o) blob) list \<Rightarrow> int list" where
  "written_at name sv = map (\<lambda>(c, f, b). c + 1) (filter (\<lambda>(c, f, b). f = name) sv)"

text \<open>
  The new episodes fit the statistics: every observation and every action has as many
  components as the statistics have.
\<close>

definition shaped :: "stats \<Rightarrow> episode list \<Rightarrow> bool" where
  "shaped st es =
     list_all (\<lambda>e. dims_ok (length (mean_obs st)) (obs e)
                  \<and> dims_ok (length (mean_acs st)) (acs e)) es"

section \<open>A run of the script\<close>

text \<open>
  A sampler that returns, in iteration \<open>k\<close> (counted from zero), one single-step
  episode whose reward is the \<open>k\<close>-th of 1, 3, 2, 5, 4; a training step that leaves
  the model as it is; the initial dataset of one episode with the observations 1 and 3
  and the actions 0 and 2. \<open>start_state\<close> is the state in which the loop starts on
  this dataset.
\<close>

definition scenario_env :: "(unit, unit) env" where
  "scenario_env =
     \<lparr>train_dm = (\<lambda>t m opt. (m, opt)),
      sample = (\<lambda>k m st. [raw_epi [0] [0] [[1, 3, 2, 5, 4] ! nat k]]),
      eps = 1 / 1000, horizon = 1\<rparr>"

definition epi_init :: episode where "epi_init = raw_epi [1, 3] [0, 2] [0, 0]"

definition start_state :: "(unit, unit) mpc_state" where
  "start_state =
     \<lparr>traj = \<lparr>epis = [\<lparr>obs = [[- 1], [1]], acs = [[- 1], [1]], rews = [0, 0],
                           dones = [False, True], next_obs = Some [[1], [1]],
                           h_masks = Some [1, 1]\<rparr>],
              registered = True\<rparr>,
      dm = (), optim_dm = (),
      stats = \<lparr>mean_obs = [2], std_obs = [1], mean_acs = [1], std_acs = [1]\<rparr>,
      counter_agg_iters = 0, max_rew = - (1 / 1000000), saved = []\<rparr>"

text \<open>
  A trainer that records the datasets it is given, in order, in place of a model, and a
  sampler that returns one single-step episode with the observation \<open>5 + k\<close> in
  iteration \<open>k\<close>.
\<close>

definition recording_env :: "(traj list, unit) env" where
  "recording_env =
     \<lparr>train_dm = (\<lambda>t m opt. (m @ [t], opt)),
      sample = (\<lambda>k m st. [raw_epi [5 + real_of_int k] [1] [1]]),
      eps = 1 / 1000, horizon = 1\<rparr>"

section \<open>Properties of the value-function base class\<close>

lemma unsqueeze_front: "unsqueeze 0 t = Inr (t\<lparr>shape := 1 # shape t\<rparr>)"
  by (simp add: unsqueeze_def)

lemma unsqueeze_times_eq:
  "unsqueeze_times k t = Inr (t\<lparr>shape := replicate k 1 @ shape t\<rparr>)"
proof (induction k arbitrary: t)
  case 0
  show ?case by simp
next
  case (Suc k)
  show ?case
    by (simp add: unsqueeze_front Suc.IH replicate_app_Cons_same)
qed


lemma check_obs_shape_eq:
  "check_obs_shape self x =
     Inr (x\<lparr>shape :=
            replicate (additional_shape self + length (space_shape (ob_space self))
                       - length (shape x)) 1 @ shape x\<rparr>)"
  by (simp add: check_obs_shape_def unsqueeze_times_eq)

lemma check_acs_shape_eq:
  "check_acs_shape self x =
     Inr (x\<lparr>shape :=
            replicate (additional_shape self + length (space_shape (ac_space self))
                       - length (shape x)) 1 @ shape x\<rparr>)"
  by (simp add: check_acs_shape_def unsqueeze_times_eq)

text \<open>
  C9. For every tensor given to \<open>_check_obs_shape\<close> (and to \<open>_check_acs_shape\<close>, with
  the action space): the threshold is the rank of the space plus one in feed-forward
  mode and plus two in recurrent mode; a tensor whose rank reaches the threshold is
  returned unchanged, any other is returned with the same elements and with leading
  dimensions of size one prepended until its rank is the threshold; no error is raised.
\<close>

theorem check_shape_pads_to_threshold:
  fixes self :: "('n, 'h) BaseSAVfunc" and obs acs :: "'a tensor"
  defines "k \<equiv> (if rnn self then 2 else 1)"
  defines "to \<equiv> length (space_shape (ob_space self)) + k"
  defines "ta \<equiv> length (space_shape (ac_space self)) + k"
  shows "check_obs_shape self obs =
           Inr (if to \<le> length (shape obs) then obs
                else obs\<lparr>shape := replicate (to - length (shape obs)) 1 @ shape obs\<rparr>)
       \<and> check_acs_shape self acs =
           Inr (if ta \<le> length (shape acs) then acs
                else acs\<lparr>shape := replicate (ta - length (shape acs)) 1 @ shape acs\<rparr>)"
proof -
  have o: "additional_shape self + length (space_shape (ob_space self)) = to"
    by (simp add: additional_shape_def to_def k_def)
  have a: "additional_shape self + length (space_shape (ac_space self)) = ta"
    by (simp add: additional_shape_def ta_def k_def)
  have "check_obs_shape self obs =
          Inr (if to \<le> length (shape obs) then obs
               else obs\<lparr>shape := replicate (to - length (shape obs)) 1 @ shape obs\<rparr>)"
    unfolding check_obs_shape_eq o by simp
  moreover have "check_acs_shape self acs =
          Inr (if ta \<le> length (shape acs) then acs
               else acs\<lparr>shape := replicate (ta - length (shape acs)) 1 @ shape acs\<rparr>)"
    unfolding check_acs_shape_eq a by simp
  ultimately show ?thesis by simp
qed


text \<open>
  C10. \<open>reset\<close> on a value function with \<open>rnn = False\<close> changes nothing, whatever the
  hidden state is; with \<open>rnn = True\<close> it sets \<open>hs\<close> to \<open>None\<close> and leaves every other
  attribute as it was.
\<close>

theorem reset_frame:
  fixes self :: "('n, 'h) BaseSAVfunc"
  shows "(\<not> rnn self \<longrightarrow> reset self = self)
       \<and> (rnn self \<longrightarrow>
            hs (reset self) = None
          \<and> ob_space (reset self) = ob_space self
          \<and> ac_space (reset self) = ac_space self
          \<and> net (reset self) = net self
          \<and> rnn (reset self) = rnn self
          \<and> data_parallel (reset self) = data_parallel self
          \<and> dp_net (reset self) = dp_net self
          \<and> dp_run (reset self) = dp_run self)"
  by (simp add: reset_def)

theorem reset_frame_witness:
  "\<not> rnn ((BaseSAVfunc_init (Space [3]) (Space [2]) (7::nat) False True 0)\<lparr>hs := Some (4::nat)\<rparr>)
   \<and> reset ((BaseSAVfunc_init (Space [3]) (Space [2]) (7::nat) False True 0)\<lparr>hs := Some (4::nat)\<rparr>)
       = \<lparr>ob_space = Space [3], ac_space = Space [2], net = 7, rnn = False, hs = Some 4,
          data_parallel = True, dp_net = Some (7, 0), dp_run = False\<rparr>
   \<and> rnn ((BaseSAVfunc_init (Space [3]) (Space [2]) (7::nat) True False 0)\<lparr>hs := Some (4::nat)\<rparr>)
   \<and> reset ((BaseSAVfunc_init (Space [3]) (Space [2]) (7::nat) True False 0)\<lparr>hs := Some (4::nat)\<rparr>)
       = \<lparr>ob_space = Space [3], ac_space = Space [2], net = 7, rnn = True, hs = None,
          data_parallel = False, dp_net = None, dp_run = False\<rparr>"
  using reset_frame [of "(BaseSAVfunc_init (Space [3]) (Space [2]) (7::nat) False True 0)\<lparr>hs := Some (4::nat)\<rparr>"]
    reset_frame [of "(BaseSAVfunc_init (Space [3]) (Space [2]) (7::nat) True False 0)\<lparr>hs := Some (4::nat)\<rparr>"]
  by (simp add: BaseSAVfunc_init_def reset_def)

section \<open>Properties of the episode transforms\<close>

lemma shift_obs_length: "length (shift_obs xs) = length xs"
  by (cases xs) (simp_all add: shift_obs_def)

lemma shift_obs_nth: "Suc j < length xs \<Longrightarrow> shift_obs xs ! j = xs ! Suc j"
  by (cases xs) (simp_all add: shift_obs_def nth_append)

lemma shift_obs_last: "xs \<noteq> [] \<Longrightarrow> last (shift_obs xs) = last xs"
  by (cases xs) (simp_all add: shift_obs_def)

text \<open>
  C6. For every episode of a trajectory, \<open>add_next_obs\<close> leaves \<open>obs\<close> as it is and
  sets \<open>next_obs\<close> to a sequence of the same length as \<open>obs\<close>, with
  \<open>next_obs[j] = obs[j + 1]\<close> at every step \<open>j\<close> but the last, and with the last
  observation at the last step.
\<close>

theorem add_next_obs_shifts:
  assumes "i < length (epis t)"
  shows "\<exists>n. next_obs (epis (add_next_obs t) ! i) = Some n
           \<and> obs (epis (add_next_obs t) ! i) = obs (epis t ! i)
           \<and> length n = length (obs (epis t ! i))
           \<and> (\<forall>j. j + 1 < length (obs (epis t ! i)) \<longrightarrow> n ! j = obs (epis t ! i) ! (j + 1))
           \<and> (obs (epis t ! i) \<noteq> [] \<longrightarrow> last n = last (obs (epis t ! i)))"
  using assms
  by (simp add: add_next_obs_def shift_obs_length shift_obs_nth shift_obs_last)

theorem add_next_obs_shifts_witness:
  "0 < length (epis (add_epis Traj [epi3]))
   \<and> obs (epis (add_epis Traj [epi3]) ! 0) = [[0], [1], [2]]
   \<and> next_obs (epis (add_next_obs (add_epis Traj [epi3])) ! 0)
       = Some [[1], [2], [2]]"
  using add_next_obs_shifts [of 0 "add_epis Traj [epi3]"]
  by (simp add: add_epis_def Traj_def epi3_def raw_epi_def add_next_obs_def shift_obs_def)

lemma horizon_mask_length: "length (horizon_mask h L) = L"
  by (simp add: horizon_mask_def)

lemma horizon_mask_nth:
  "j < L \<Longrightarrow> horizon_mask h L ! j = (if int j + h \<le> int L then 1 else 0)"
  by (simp add: horizon_mask_def)

lemma horizon_mask_blocks:
  assumes "1 \<le> h"
  shows "horizon_mask h L =
           replicate (nat (max 0 (int L - h + 1))) 1
           @ replicate (L - nat (max 0 (int L - h + 1))) 0"
proof (rule nth_equalityI)
  show "length (horizon_mask h L) =
        length (replicate (nat (max 0 (int L - h + 1))) (1::real)
                @ replicate (L - nat (max 0 (int L - h + 1))) 0)"
    using assms by (simp add: horizon_mask_length)
next
  fix j assume "j < length (horizon_mask h L)"
  then have j: "j < L" by (simp add: horizon_mask_length)
  show "horizon_mask h L ! j =
        (replicate (nat (max 0 (int L - h + 1))) (1::real)
         @ replicate (L - nat (max 0 (int L - h + 1))) 0) ! j"
    using j assms by (auto simp add: horizon_mask_nth nth_append)
qed

lemma horizon_mask_short: "int L < h \<Longrightarrow> horizon_mask h L = replicate L 0"
  by (rule nth_equalityI) (simp_all add: horizon_mask_length horizon_mask_nth)

lemma compute_horizon_masks_invalid:
  "h < 1 \<Longrightarrow> compute_horizon_masks h t = Inl InvalidArgumentError"
  by (simp add: compute_horizon_masks_def)

text \<open>
  C5. For every episode of a trajectory, of length \<open>L\<close>, and every horizon \<open>h\<close> (a
  valid one, \<open>h \<ge> 1\<close>), \<open>compute_horizon_masks(h)\<close> returns and gives timestep \<open>j\<close>
  the mask \<open>1\<close> if \<open>j + h \<le> L\<close> and \<open>0\<close> otherwise, so that the mask is exactly
  \<open>max(0, L - h + 1)\<close> ones followed by zeros, and an episode shorter than \<open>h\<close> gets
  the all-zero mask.
\<close>

theorem compute_horizon_masks_blocks:
  assumes "1 \<le> h" and "i < length (epis t)"
  shows "\<exists>t' m. compute_horizon_masks h t = Inr t'
           \<and> length (epis t') = length (epis t)
           \<and> h_masks (epis t' ! i) = Some m
           \<and> length m = length (obs (epis t ! i))
           \<and> (\<forall>j < length (obs (epis t ! i)).
                 m ! j = (if int j + h \<le> int (length (obs (epis t ! i))) then 1 else 0))
           \<and> m = replicate (nat (max 0 (int (length (obs (epis t ! i))) - h + 1))) 1
                 @ replicate (length (obs (epis t ! i))
                              - nat (max 0 (int (length (obs (epis t ! i))) - h + 1))) 0
           \<and> (int (length (obs (epis t ! i))) < h \<longrightarrow>
                 m = replicate (length (obs (epis t ! i))) 0)"
proof -
  let ?L = "length (obs (epis t ! i))"
  have "compute_horizon_masks h t = Inr (compute_h_masks h t)"
    using assms(1) by (simp add: compute_horizon_masks_def)
  moreover have "length (epis (compute_h_masks h t)) = length (epis t)"
    by (simp add: compute_h_masks_def)
  moreover have "h_masks (epis (compute_h_masks h t) ! i) = Some (horizon_mask h ?L)"
    using assms(2) by (simp add: compute_h_masks_def)
  moreover have "length (horizon_mask h ?L) = ?L"
    by (rule horizon_mask_length)
  moreover have "\<forall>j < ?L. horizon_mask h ?L ! j = (if int j + h \<le> int ?L then 1 else 0)"
    by (simp add: horizon_mask_nth)
  moreover have "horizon_mask h ?L
      = replicate (nat (max 0 (int ?L - h + 1))) 1
        @ replicate (?L - nat (max 0 (int ?L - h + 1))) 0"
    using horizon_mask_blocks [OF assms(1)] .
  moreover have "int ?L < h \<longrightarrow> horizon_mask h ?L = replicate ?L 0"
    using horizon_mask_short by blast
  ultimately show ?thesis by blast
qed

theorem compute_horizon_masks_blocks_witness:
  "(1::int) \<le> 4
   \<and> 1 < length (epis (add_epis Traj [epi5, epi3, epi7]))
   \<and> (\<exists>t'. compute_horizon_masks 4 (add_epis Traj [epi5, epi3, epi7]) = Inr t'
          \<and> map h_masks (epis t')
              = [Some [1, 1, 0, 0, 0], Some [0, 0, 0], Some [1, 1, 1, 1, 0, 0, 0]])"
  using compute_horizon_masks_blocks [of 4 1 "add_epis Traj [epi5, epi3, epi7]"]
  by (simp add: compute_horizon_masks_def compute_h_masks_def add_epis_def Traj_def
      epi5_def epi3_def epi7_def raw_epi_def horizon_mask_def)

section \<open>Properties of the advantage estimator\<close>

text \<open>
  C7. For a single-step episode with reward \<open>r\<close> and \<open>done = True\<close>, whatever the value
  function and the estimate after the last step are, the advantage is \<open>r - V(obs[0])\<close>
  and the return is \<open>r\<close>, for every \<open>gamma\<close> and \<open>lambda\<close> in \<open>[0, 1]\<close>.
\<close>

theorem gae_single_step:
  assumes "0 \<le> gamma" "gamma \<le> 1" "0 \<le> lam" "lam \<le> 1"
    and "obs e = [ob]" "rews e = [r]" "dones e = [True]"
  shows "gae_episode gamma lam V v_end e = Inr ([r - V ob], [r])"
  using assms by (simp add: gae_episode_def)

theorem gae_single_step_witness:
  "(0::real) \<le> 995 / 1000 \<and> (995::real) / 1000 \<le> 1 \<and> (0::real) \<le> 1 \<and> (1::real) \<le> 1
   \<and> gae_episode (995 / 1000) 1 (\<lambda>ob. sum_list ob / 2) 7
        \<lparr>obs = [[1, 2]], acs = [[0]], rews = [5], dones = [True],
         next_obs = None, h_masks = None\<rparr>
      = Inr ([7 / 2], [5])"
  using gae_single_step [of "995 / 1000" 1
      "\<lparr>obs = [[1, 2]], acs = [[0]], rews = [5], dones = [True],
        next_obs = None, h_masks = None\<rparr>" "[1, 2]" 5 "\<lambda>ob. sum_list ob / 2" 7]
  by simp

section \<open>Properties of the aggregation loop\<close>

lemma dims_ok_shift_obs: "dims_ok d xs \<Longrightarrow> dims_ok d (shift_obs xs)"
  by (cases xs) (auto simp add: dims_ok_def shift_obs_def list_all_iff)

lemma prepared_epis:
  "epis (compute_h_masks hz (add_next_obs (add_epis Traj es))) =
     map (\<lambda>e. e\<lparr>next_obs := Some (shift_obs (obs e)),
                h_masks := Some (horizon_mask hz (length (obs e)))\<rparr>) es"
  by (simp add: compute_h_masks_def add_next_obs_def add_epis_def Traj_def comp_def)

lemma same_fields_all:
  "list_all (\<lambda>e. field_set e = (True, True)) es \<Longrightarrow> same_fields es"
  by (cases es) (auto simp add: same_fields_def list_all_iff)

lemma field_set_normalize_epi: "field_set (normalize_epi st e) = field_set e"
  by (simp add: field_set_def normalize_epi_def)

lemma prepared_fields:
  "list_all (\<lambda>e. field_set e = (True, True))
     (map (normalize_epi st) (epis (compute_h_masks hz (add_next_obs (add_epis Traj es)))))"
  by (simp add: prepared_epis list_all_iff field_set_normalize_epi) (simp add: field_set_def)

lemma prepared_dims:
  assumes "shaped st es"
  shows "list_all (epi_dims_ok (length (mean_obs st)) (length (mean_acs st)))
           (epis (compute_h_masks hz (add_next_obs (add_epis Traj es))))"
  using assms
  by (auto simp add: prepared_epis shaped_def list_all_iff epi_dims_ok_def dims_ok_shift_obs)

text \<open>
  What lines 166 to 174 leave in \<open>traj\<close>: the new episodes, prepared and normalized,
  twice over.
\<close>

lemma merge_new_result:
  assumes "merge_new ep hz st es = Inr t"
  shows "t = \<lparr>epis = map (normalize_epi st)
                      (epis (compute_h_masks hz (add_next_obs (add_epis Traj es))))
                  @ map (normalize_epi st)
                      (epis (compute_h_masks hz (add_next_obs (add_epis Traj es)))),
              registered = False\<rparr>"
  using assms
  by (auto simp add: merge_new_def normalize_obs_and_acs_def register_epis_def add_traj_def
      compute_h_masks_def add_next_obs_def add_epis_def Traj_def Let_def
      split: if_splits)

lemma merge_new_ok:
  assumes "stats_dims_ok st" and "shaped st es"
  shows "\<exists>t. merge_new ep hz st es = Inr t"
  using assms prepared_dims [OF assms(2), of hz] prepared_fields [of st hz es]
  by (simp add: merge_new_def normalize_obs_and_acs_def register_epis_def Let_def
      same_fields_all)


lemma written_at_append:
  "written_at name (xs @ ys) = written_at name xs @ written_at name ys"
  by (simp add: written_at_def)

text \<open>One pass of the body, when the new episodes fit the statistics.\<close>

lemma agg_iter_step:
  fixes E :: "('m, 'o) env" and s :: "('m, 'o) mpc_state"
  defines "new \<equiv> sample E (counter_agg_iters s)
                    (fst (train_dm E (traj s) (dm s) (optim_dm s))) (stats s)"
  assumes "stats_dims_ok (stats s)" and "shaped (stats s) new"
  shows "\<exists>s'. agg_iter E s = Inr s'
           \<and> stats s' = stats s
           \<and> counter_agg_iters s' = counter_agg_iters s + 1
           \<and> max_rew s' = (if beats (mean_rew_of new) (max_rew s)
                            then the (mean_rew_of new) else max_rew s)
           \<and> written_at ''dm_last.pkl'' (saved s')
               = written_at ''dm_last.pkl'' (saved s) @ [counter_agg_iters s + 1]
           \<and> written_at ''dm_max.pkl'' (saved s')
               = written_at ''dm_max.pkl'' (saved s)
                 @ (if beats (mean_rew_of new) (max_rew s)
                    then [counter_agg_iters s + 1] else [])"
proof -
  obtain t where t: "merge_new (eps E) (horizon E) (stats s) new = Inr t"
    using merge_new_ok [OF assms(2,3)] by blast
  show ?thesis
    using t
    by (cases "train_dm E (traj s) (dm s) (optim_dm s)")
       (auto simp add: agg_iter_def new_def Let_def written_at_def beats_def
          split: option.splits)
qed

lemma agg_iter_stats: "agg_iter E s = Inr s' \<Longrightarrow> stats s' = stats s"
  by (auto simp add: agg_iter_def Let_def split: prod.splits sum.splits)

lemma agg_loop_stats: "agg_loop E n s = Inr s' \<Longrightarrow> stats s' = stats s"
proof (induction E n s rule: agg_loop.induct)
  case (1 E n s)
  show ?case
  proof (cases "n > counter_agg_iters s")
    case True
    with "1.prems" obtain x where x: "agg_iter E s = Inr x" and r: "agg_loop E n x = Inr s'"
      by (auto simp add: agg_loop.simps [of E n s] split: sum.splits)
    from "1.IH" [OF True x r] agg_iter_stats [OF x] show ?thesis by simp
  next
    case False
    with "1.prems" show ?thesis by (simp add: agg_loop.simps [of E n s])
  qed
qed

lemma agg_loop_runs:
  fixes E :: "('m, 'o) env" and s :: "('m, 'o) mpc_state"
  assumes "stats_dims_ok (stats s)" and "\<forall>k m. shaped (stats s) (sample E k m (stats s))"
  shows "\<exists>s'. agg_loop E n s = Inr s'
           \<and> counter_agg_iters s' = max n (counter_agg_iters s)
           \<and> written_at ''dm_last.pkl'' (saved s')
               = written_at ''dm_last.pkl'' (saved s) @ [counter_agg_iters s + 1 .. n]"
  using assms
proof (induction E n s rule: agg_loop.induct)
  case (1 E n s)
  show ?case
  proof (cases "n > counter_agg_iters s")
    case True
    from "1.prems" obtain x where x: "agg_iter E s = Inr x"
      and xs: "stats x = stats s"
      and xc: "counter_agg_iters x = counter_agg_iters s + 1"
      and xl: "written_at ''dm_last.pkl'' (saved x)
                 = written_at ''dm_last.pkl'' (saved s) @ [counter_agg_iters s + 1]"
      using agg_iter_step [of s E] by blast
    from "1.IH" [OF True x] "1.prems" xs
    obtain s' where r: "agg_loop E n x = Inr s'"
      and rc: "counter_agg_iters s' = max n (counter_agg_iters x)"
      and rl: "written_at ''dm_last.pkl'' (saved s')
                 = written_at ''dm_last.pkl'' (saved x) @ [counter_agg_iters x + 1 .. n]"
      by auto
    have "agg_loop E n s = Inr s'"
      using True x r by (simp add: agg_loop.simps [of E n s])
    moreover have "counter_agg_iters s' = max n (counter_agg_iters s)"
      using rc xc True by simp
    moreover have "[counter_agg_iters s + 1 .. n]
                     = (counter_agg_iters s + 1) # [counter_agg_iters s + 1 + 1 .. n]"
      using True by (simp add: upto_rec1)
    then have "written_at ''dm_last.pkl'' (saved s')
                 = written_at ''dm_last.pkl'' (saved s) @ [counter_agg_iters s + 1 .. n]"
      using rl xl xc by simp
    ultimately show ?thesis by blast
  next
    case False
    then show ?thesis by (simp add: agg_loop.simps [of E n s])
  qed
qed



lemmas run_defs =
  mpc_main_def mpc_init_def agg_iter_def merge_new_def mean_rew_of_def np_mean_def beats_def
  written_at_def add_epis_def Traj_def add_traj_def add_next_obs_def compute_h_masks_def
  normalize_obs_and_acs_def compute_stats_def mean_vec_def std_vec_def vec_dim_def column_def
  mean_def std_def stats_dims_ok_def epi_dims_ok_def dims_ok_def normalize_epi_def
  normalize_vec_def register_epis_def same_fields_def field_set_def shift_obs_def
  horizon_mask_def raw_epi_def Let_def

lemma agg_loop_unfold:
  "n > counter_agg_iters s \<Longrightarrow> agg_iter E s = Inr x \<Longrightarrow> agg_loop E n s = agg_loop E n x"
  by (simp add: agg_loop.simps [of E n s])

lemma agg_loop_exit: "\<not> n > counter_agg_iters s \<Longrightarrow> agg_loop E n s = Inr s"
  by (simp add: agg_loop.simps [of E n s])

text \<open>
  C8. From the start of the loop, where \<open>counter_agg_iters\<close> is \<open>0\<close>, and with new
  episodes that fit the statistics, the loop returns for every
  \<open>num_aggregation_iters = n\<close>, whatever the sampled rewards and the trained models
  are: it leaves the counter at \<open>n\<close> (at \<open>0\<close> for a negative \<open>n\<close>), and its body has
  run once for each of the iterations \<open>1, ..., n\<close> and no more, as the writes of the
  last checkpoint show.
\<close>

theorem agg_loop_runs_n_times:
  fixes E :: "('m, 'o) env" and s :: "('m, 'o) mpc_state"
  assumes "counter_agg_iters s = 0"
    and "stats_dims_ok (stats s)"
    and "\<forall>k m. shaped (stats s) (sample E k m (stats s))"
  shows "\<exists>s'. agg_loop E n s = Inr s'
           \<and> counter_agg_iters s' = max n 0
           \<and> written_at ''dm_last.pkl'' (saved s')
               = written_at ''dm_last.pkl'' (saved s) @ [1 .. n]
           \<and> length (written_at ''dm_last.pkl'' (saved s'))
               = length (written_at ''dm_last.pkl'' (saved s)) + nat n"
proof -
  obtain s' where r: "agg_loop E n s = Inr s'"
    and c: "counter_agg_iters s' = max n (counter_agg_iters s)"
    and l: "written_at ''dm_last.pkl'' (saved s')
              = written_at ''dm_last.pkl'' (saved s) @ [counter_agg_iters s + 1 .. n]"
    using agg_loop_runs [OF assms(2,3), of n] by blast
  have "length [1 .. n] = nat n" by simp
  with r c l assms(1) show ?thesis by simp
qed


lemma upto_1_3: "[1 .. 3 :: int] = [1, 2, 3]"
  by (simp add: upto.simps)

theorem agg_loop_runs_n_times_witness:
  "counter_agg_iters start_state = 0
   \<and> stats_dims_ok (stats start_state)
   \<and> (\<forall>k m. shaped (stats start_state) (sample scenario_env k m (stats start_state)))
   \<and> (\<exists>s'. agg_loop scenario_env 3 start_state = Inr s'
          \<and> counter_agg_iters s' = 3
          \<and> written_at ''dm_last.pkl'' (saved s') = [1, 2, 3])"
  using agg_loop_runs_n_times [of start_state scenario_env 3]
  by (auto simp add: start_state_def scenario_env_def shaped_def stats_dims_ok_def dims_ok_def
      raw_epi_def written_at_def upto_1_3)

text \<open>
  C3, as stated: with the mean rewards 1, 3, 2, 5, 4 the best checkpoint is written at
  the iterations 2 and 4 and at no other. The script starts \<open>max_rew\<close> at \<open>-1e-6\<close>, so
  the first iteration, with mean reward 1, writes it too: on the run of five iterations
  from the dataset \<open>epi_init\<close> whose sampler returns one episode with these rewards,
  \<open>dm_max.pkl\<close> is written at the iterations 1, 2 and 4.
\<close>

theorem best_checkpoint_at_first_iteration:
  "map (\<lambda>k. mean_rew_of (sample scenario_env k () (stats start_state))) [0, 1, 2, 3, 4]
     = [Some 1, Some 3, Some 2, Some 5, Some 4]
   \<and> (\<exists>s'. mpc_main scenario_env () () [epi_init] 5 = Inr s'
          \<and> written_at ''dm_max.pkl'' (saved s') = [1, 2, 4]
          \<and> written_at ''dm_max.pkl'' (saved s') \<noteq> [2, 4])"
  by (simp add: run_defs scenario_env_def epi_init_def start_state_def agg_loop.simps)

text \<open>
  C3, amended: from the start of the loop (\<open>counter_agg_iters = 0\<close>, \<open>max_rew = -1e-6\<close>,
  nothing written yet), across 5 iterations whose mean episode rewards are
  1, 3, 2, 5, 4, the best checkpoint is written exactly at the iterations 1, 2 and 4
  (counted from one), and the last checkpoint at every iteration.
\<close>

theorem best_checkpoint_scenario:
  fixes E :: "('m, 'o) env" and s :: "('m, 'o) mpc_state"
  assumes start: "counter_agg_iters s = 0" "max_rew s = - (1 / 1000000)" "saved s = []"
    and fit: "stats_dims_ok (stats s)" "\<forall>k m. shaped (stats s) (sample E k m (stats s))"
    and r1: "\<forall>m. mean_rew_of (sample E 0 m (stats s)) = Some 1"
    and r2: "\<forall>m. mean_rew_of (sample E 1 m (stats s)) = Some 3"
    and r3: "\<forall>m. mean_rew_of (sample E 2 m (stats s)) = Some 2"
    and r4: "\<forall>m. mean_rew_of (sample E 3 m (stats s)) = Some 5"
    and r5: "\<forall>m. mean_rew_of (sample E 4 m (stats s)) = Some 4"
  shows "\<exists>s'. agg_loop E 5 s = Inr s'
           \<and> written_at ''dm_max.pkl'' (saved s') = [1, 2, 4]
           \<and> written_at ''dm_last.pkl'' (saved s') = [1, 2, 3, 4, 5]"
proof -
  obtain s1 where i1: "agg_iter E s = Inr s1" and t1: "stats s1 = stats s"
    and c1: "counter_agg_iters s1 = 1" and m1: "max_rew s1 = 1"
    and b1: "written_at ''dm_max.pkl'' (saved s1) = [1]"
    and l1: "written_at ''dm_last.pkl'' (saved s1) = [1]"
    using agg_iter_step [of s E] start fit r1
    by (auto simp add: beats_def written_at_def)
  obtain s2 where i2: "agg_iter E s1 = Inr s2" and t2: "stats s2 = stats s"
    and c2: "counter_agg_iters s2 = 2" and m2: "max_rew s2 = 3"
    and b2: "written_at ''dm_max.pkl'' (saved s2) = [1, 2]"
    and l2: "written_at ''dm_last.pkl'' (saved s2) = [1, 2]"
    using agg_iter_step [of s1 E] t1 c1 m1 b1 l1 fit r2
    by (auto simp add: beats_def)
  obtain s3 where i3: "agg_iter E s2 = Inr s3" and t3: "stats s3 = stats s"
    and c3: "counter_agg_iters s3 = 3" and m3: "max_rew s3 = 3"
    and b3: "written_at ''dm_max.pkl'' (saved s3) = [1, 2]"
    and l3: "written_at ''dm_last.pkl'' (saved s3) = [1, 2, 3]"
    using agg_iter_step [of s2 E] t2 c2 m2 b2 l2 fit r3
    by (auto simp add: beats_def)
  obtain s4 where i4: "agg_iter E s3 = Inr s4" and t4: "stats s4 = stats s"
    and c4: "counter_agg_iters s4 = 4" and m4: "max_rew s4 = 5"
    and b4: "written_at ''dm_max.pkl'' (saved s4) = [1, 2, 4]"
    and l4: "written_at ''dm_last.pkl'' (saved s4) = [1, 2, 3, 4]"
    using agg_iter_step [of s3 E] t3 c3 m3 b3 l3 fit r4
    by (auto simp add: beats_def)
  obtain s5 where i5: "agg_iter E s4 = Inr s5"
    and c5: "counter_agg_iters s5 = 5"
    and b5: "written_at ''dm_max.pkl'' (saved s5) = [1, 2, 4]"
    and l5: "written_at ''dm_last.pkl'' (saved s5) = [1, 2, 3, 4, 5]"
    using agg_iter_step [of s4 E] t4 c4 m4 b4 l4 fit r5
    by (auto simp add: beats_def)
  have "agg_loop E 5 s = agg_loop E 5 s1"
    using agg_loop_unfold [where n = 5, OF _ i1] start by simp
  also have "\<dots> = agg_loop E 5 s2"
    using agg_loop_unfold [where n = 5, OF _ i2] c1 by simp
  also have "\<dots> = agg_loop E 5 s3"
    using agg_loop_unfold [where n = 5, OF _ i3] c2 by simp
  also have "\<dots> = agg_loop E 5 s4"
    using agg_loop_unfold [where n = 5, OF _ i4] c3 by simp
  also have "\<dots> = agg_loop E 5 s5"
    using agg_loop_unfold [where n = 5, OF _ i5] c4 by simp
  also have "\<dots> = Inr s5"
    using agg_loop_exit [where n = 5 and s = s5 and E = E] c5 by simp
  finally show ?thesis using b5 l5 by blast
qed

theorem best_checkpoint_scenario_witness:
  "counter_agg_iters start_state = 0 \<and> max_rew start_state = - (1 / 1000000)
   \<and> saved start_state = []
   \<and> stats_dims_ok (stats start_state)
   \<and> (\<forall>k m. shaped (stats start_state) (sample scenario_env k m (stats start_state)))
   \<and> (\<forall>m. map (\<lambda>k. mean_rew_of (sample scenario_env k m (stats start_state)))
              [0, 1, 2, 3, 4]
            = [Some 1, Some 3, Some 2, Some 5, Some 4])
   \<and> (\<exists>s'. agg_loop scenario_env 5 start_state = Inr s'
          \<and> written_at ''dm_max.pkl'' (saved s') = [1, 2, 4]
          \<and> written_at ''dm_last.pkl'' (saved s') = [1, 2, 3, 4, 5])"
  using best_checkpoint_scenario [of start_state scenario_env]
  by (simp add: start_state_def scenario_env_def shaped_def stats_dims_ok_def dims_ok_def
      raw_epi_def mean_rew_of_def np_mean_def)

lemma start_state_init: "mpc_init scenario_env () () [epi_init] = Inr start_state"
  by (simp add: run_defs scenario_env_def epi_init_def start_state_def)

lemma compute_stats_prepared:
  "compute_stats ep (compute_h_masks hz (add_next_obs (add_epis Traj es)))
     = compute_stats ep (add_epis Traj es)"
  by (simp add: compute_stats_def prepared_epis comp_def) (simp add: add_epis_def Traj_def)

lemma mpc_init_result:
  assumes "mpc_init E dm0 optim0 epis0 = Inr s0"
  shows "stats s0 = compute_stats (eps E) (add_epis Traj epis0)"
    and "stats_dims_ok (stats s0)"
    and "counter_agg_iters s0 = 0"
  using assms compute_stats_prepared [of "eps E" "horizon E" epis0]
  by (auto simp add: mpc_init_def normalize_obs_and_acs_def Let_def
      split: if_splits sum.splits)

lemma agg_iter_traj:
  assumes "agg_iter E s = Inr s'"
  shows "traj s' =
           \<lparr>epis = map (normalize_epi (stats s))
                      (epis (compute_h_masks (horizon E) (add_next_obs (add_epis Traj
                         (sample E (counter_agg_iters s) (dm s') (stats s))))))
                  @ map (normalize_epi (stats s))
                      (epis (compute_h_masks (horizon E) (add_next_obs (add_epis Traj
                         (sample E (counter_agg_iters s) (dm s') (stats s)))))),
            registered = False\<rparr>"
  using assms
  by (auto simp add: agg_iter_def Let_def split: prod.splits sum.splits
      dest!: merge_new_result)

lemma std_vec_floor: "list_all (\<lambda>x. ep \<le> x) (std_vec ep xs)"
  by (simp add: std_vec_def list_all_iff)

lemma normalize_vec_nth:
  assumes "length x = length mu" and "length sd = length mu" and "c < length x"
  shows "normalize_vec mu sd x ! c = (x ! c - mu ! c) / sd ! c"
  using assms by (simp add: normalize_vec_def)

lemma normalize_given_stats:
  assumes "normalize_obs_and_acs ep t (Some st) = Inr (t', st')"
  shows "st' = st" and "epis t' = map (normalize_epi st) (epis t)"
    and "stats_dims_ok st"
    and "list_all (epi_dims_ok (length (mean_obs st)) (length (mean_acs st))) (epis t)"
  using assms by (auto simp add: normalize_obs_and_acs_def Let_def split: if_splits)

lemma normalize_epi_obs_nth:
  assumes "stats_dims_ok st"
    and "epi_dims_ok (length (mean_obs st)) (length (mean_acs st)) e"
    and "j < length (obs e)" and "c < length (obs e ! j)"
  shows "obs (normalize_epi st e) ! j ! c = (obs e ! j ! c - mean_obs st ! c) / std_obs st ! c"
proof -
  have "length (obs e ! j) = length (mean_obs st)"
    using assms(2,3) by (simp add: epi_dims_ok_def dims_ok_def list_all_length)
  then show ?thesis
    using assms by (simp add: normalize_epi_def normalize_vec_nth stats_dims_ok_def)
qed

lemma normalize_epi_acs_nth:
  assumes "stats_dims_ok st"
    and "epi_dims_ok (length (mean_obs st)) (length (mean_acs st)) e"
    and "j < length (acs e)" and "c < length (acs e ! j)"
  shows "acs (normalize_epi st e) ! j ! c = (acs e ! j ! c - mean_acs st ! c) / std_acs st ! c"
proof -
  have "length (acs e ! j) = length (mean_acs st)"
    using assms(2,3) by (simp add: epi_dims_ok_def dims_ok_def list_all_length)
  then show ?thesis
    using assms by (simp add: normalize_epi_def normalize_vec_nth stats_dims_ok_def)
qed

text \<open>
  C2. The statistics are those computed from the initial dataset, once, before the
  loop. Whenever the new episodes fit them, the loop returns for every iteration count,
  the state it returns holds the same statistics, and the next pass of the body keeps
  them and leaves in \<open>traj\<close> the new episodes normalized with them.
  \<open>normalize_obs_and_acs\<close>, given statistics, returns them as they are and replaces
  each component \<open>x\<close> of each observation and action by \<open>(x - mean) / std\<close>. With a
  positive floor, no standard deviation of the computed statistics is zero.
\<close>

theorem stats_fixed_after_init:
  fixes E :: "('m, 'o) env"
  assumes init: "mpc_init E dm0 optim0 epis0 = Inr s0"
    and fit: "\<forall>k m. shaped (stats s0) (sample E k m (stats s0))"
  shows "stats s0 = compute_stats (eps E) (add_epis Traj epis0)
       \<and> (0 < eps E \<longrightarrow> list_all (\<lambda>x. 0 < x) (std_obs (stats s0) @ std_acs (stats s0)))
       \<and> (\<forall>n. \<exists>s s'.
             agg_loop E n s0 = Inr s \<and> stats s = stats s0
           \<and> agg_iter E s = Inr s' \<and> stats s' = stats s0
           \<and> epis (traj s')
               = map (normalize_epi (stats s0))
                   (epis (compute_h_masks (horizon E) (add_next_obs (add_epis Traj
                      (sample E (counter_agg_iters s) (dm s') (stats s0))))))
                 @ map (normalize_epi (stats s0))
                   (epis (compute_h_masks (horizon E) (add_next_obs (add_epis Traj
                      (sample E (counter_agg_iters s) (dm s') (stats s0)))))))
       \<and> (\<forall>t st t' st'.
             normalize_obs_and_acs ep t (Some st) = Inr (t', st') \<longrightarrow>
               st' = st
             \<and> epis t' = map (normalize_epi st) (epis t)
             \<and> (\<forall>i j c. i < length (epis t) \<longrightarrow> j < length (obs (epis t ! i)) \<longrightarrow>
                    c < length (obs (epis t ! i) ! j) \<longrightarrow>
                    obs (epis t' ! i) ! j ! c
                      = (obs (epis t ! i) ! j ! c - mean_obs st ! c) / std_obs st ! c)
             \<and> (\<forall>i j c. i < length (epis t) \<longrightarrow> j < length (acs (epis t ! i)) \<longrightarrow>
                    c < length (acs (epis t ! i) ! j) \<longrightarrow>
                    acs (epis t' ! i) ! j ! c
                      = (acs (epis t ! i) ! j ! c - mean_acs st ! c) / std_acs st ! c))"
proof (intro conjI allI impI)
  show "stats s0 = compute_stats (eps E) (add_epis Traj epis0)"
    by (rule mpc_init_result(1) [OF init])
next
  assume pos: "0 < eps E"
  have "list_all (\<lambda>x. eps E \<le> x) (std_obs (stats s0))"
    and "list_all (\<lambda>x. eps E \<le> x) (std_acs (stats s0))"
    unfolding mpc_init_result(1) [OF init]
    by (simp_all add: compute_stats_def Let_def std_vec_floor)
  with pos show "list_all (\<lambda>x. 0 < x) (std_obs (stats s0) @ std_acs (stats s0))"
    by (auto simp add: list_all_iff)
next
  fix n
  have dims: "stats_dims_ok (stats s0)" by (rule mpc_init_result(2) [OF init])
  obtain s where s: "agg_loop E n s0 = Inr s"
    using agg_loop_runs [OF dims fit, of n] by blast
  have ss: "stats s = stats s0" by (rule agg_loop_stats [OF s])
  obtain s' where s': "agg_iter E s = Inr s'"
    using agg_iter_step [of s E] dims fit ss by auto
  have ss': "stats s' = stats s0" using agg_iter_stats [OF s'] ss by simp
  show "\<exists>s s'.
          agg_loop E n s0 = Inr s \<and> stats s = stats s0
        \<and> agg_iter E s = Inr s' \<and> stats s' = stats s0
        \<and> epis (traj s')
            = map (normalize_epi (stats s0))
                (epis (compute_h_masks (horizon E) (add_next_obs (add_epis Traj
                   (sample E (counter_agg_iters s) (dm s') (stats s0))))))
              @ map (normalize_epi (stats s0))
                (epis (compute_h_masks (horizon E) (add_next_obs (add_epis Traj
                   (sample E (counter_agg_iters s) (dm s') (stats s0))))))"
    using s ss s' ss' agg_iter_traj [OF s'] by auto
next
  fix t st t' st'
  assume "normalize_obs_and_acs ep t (Some st) = Inr (t', st')"
  then show "st' = st" by (rule normalize_given_stats(1))
next
  fix t st t' st'
  assume "normalize_obs_and_acs ep t (Some st) = Inr (t', st')"
  then show "epis t' = map (normalize_epi st) (epis t)" by (rule normalize_given_stats(2))
next
  fix t st t' st' i j c
  assume n: "normalize_obs_and_acs ep t (Some st) = Inr (t', st')"
    and i: "i < length (epis t)" and j: "j < length (obs (epis t ! i))"
    and c: "c < length (obs (epis t ! i) ! j)"
  have "epi_dims_ok (length (mean_obs st)) (length (mean_acs st)) (epis t ! i)"
    using normalize_given_stats(4) [OF n] i by (simp add: list_all_length)
  then show "obs (epis t' ! i) ! j ! c
               = (obs (epis t ! i) ! j ! c - mean_obs st ! c) / std_obs st ! c"
    using normalize_epi_obs_nth [OF normalize_given_stats(3) [OF n] _ j c]
      normalize_given_stats(2) [OF n] i by simp
next
  fix t st t' st' i j c
  assume n: "normalize_obs_and_acs ep t (Some st) = Inr (t', st')"
    and i: "i < length (epis t)" and j: "j < length (acs (epis t ! i))"
    and c: "c < length (acs (epis t ! i) ! j)"
  have "epi_dims_ok (length (mean_obs st)) (length (mean_acs st)) (epis t ! i)"
    using normalize_given_stats(4) [OF n] i by (simp add: list_all_length)
  then show "acs (epis t' ! i) ! j ! c
               = (acs (epis t ! i) ! j ! c - mean_acs st ! c) / std_acs st ! c"
    using normalize_epi_acs_nth [OF normalize_given_stats(3) [OF n] _ j c]
      normalize_given_stats(2) [OF n] i by simp
qed

theorem stats_fixed_after_init_witness:
  "mpc_init scenario_env () () [epi_init] = Inr start_state
   \<and> (\<forall>k m. shaped (stats start_state) (sample scenario_env k m (stats start_state)))
   \<and> compute_stats (1 / 1000) (add_epis Traj [epi_init])
       = \<lparr>mean_obs = [2], std_obs = [1], mean_acs = [1], std_acs = [1]\<rparr>
   \<and> (\<exists>s s'. agg_loop scenario_env 2 start_state = Inr s
          \<and> agg_iter scenario_env s = Inr s'
          \<and> stats s' = \<lparr>mean_obs = [2], std_obs = [1], mean_acs = [1], std_acs = [1]\<rparr>
          \<and> map obs (epis (traj s')) = [[[- 2]], [[- 2]]]
          \<and> map acs (epis (traj s')) = [[[- 1]], [[- 1]]])"
proof -
  have fit: "\<forall>k m. shaped (stats start_state) (sample scenario_env k m (stats start_state))"
    by (simp add: start_state_def scenario_env_def shaped_def dims_ok_def raw_epi_def)
  note T = stats_fixed_after_init [OF start_state_init fit]
  have c: "compute_stats (1 / 1000) (add_epis Traj [epi_init])
             = \<lparr>mean_obs = [2], std_obs = [1], mean_acs = [1], std_acs = [1]\<rparr>"
    using T by (simp add: scenario_env_def start_state_def)
  from T obtain s s' where l: "agg_loop scenario_env 2 start_state = Inr s"
    and i: "agg_iter scenario_env s = Inr s'"
    and st: "stats s' = stats start_state"
    and tr: "epis (traj s')
               = map (normalize_epi (stats start_state))
                   (epis (compute_h_masks (horizon scenario_env) (add_next_obs (add_epis Traj
                      (sample scenario_env (counter_agg_iters s) (dm s')
                         (stats start_state))))))
                 @ map (normalize_epi (stats start_state))
                   (epis (compute_h_masks (horizon scenario_env) (add_next_obs (add_epis Traj
                      (sample scenario_env (counter_agg_iters s) (dm s')
                         (stats start_state))))))"
    by blast
  have v: "stats s' = \<lparr>mean_obs = [2], std_obs = [1], mean_acs = [1], std_acs = [1]\<rparr>"
    using st by (simp add: start_state_def)
  have o: "map obs (epis (traj s')) = [[[- 2]], [[- 2]]]"
    and a: "map acs (epis (traj s')) = [[[- 1]], [[- 1]]]"
    unfolding tr
    by (simp_all add: start_state_def scenario_env_def raw_epi_def prepared_epis
        normalize_epi_def normalize_vec_def)
  have ex: "\<exists>s s'. agg_loop scenario_env 2 start_state = Inr s
          \<and> agg_iter scenario_env s = Inr s'
          \<and> stats s' = \<lparr>mean_obs = [2], std_obs = [1], mean_acs = [1], std_acs = [1]\<rparr>
          \<and> map obs (epis (traj s')) = [[[- 2]], [[- 2]]]
          \<and> map acs (epis (traj s')) = [[[- 1]], [[- 1]]]"
    using l i v o a by (intro exI [of _ s] exI [of _ s'] conjI)
  show ?thesis
    by (intro conjI) (rule start_state_init, rule fit, rule c, rule ex)
qed

text \<open>
  C1 on the code. Line 171 assigns the normalized new trajectory to \<open>traj\<close>, so that
  what was in \<open>traj\<close> before is dropped and line 174 appends the new episodes to
  themselves. With a trainer that records the datasets it is given, two iterations
  from the dataset \<open>epi_init\<close>: the first trains on the initial episode, the second on
  the episode of the first iteration, twice, and not on the initial episode; at the
  end \<open>traj\<close> holds the episode of the second iteration twice and nothing else.
\<close>

theorem agg_loop_drops_earlier_episodes:
  "\<exists>s. mpc_main recording_env [] () [epi_init] 2 = Inr s
      \<and> map (\<lambda>t. map obs (epis t)) (dm s) = [[[[- 1], [1]]], [[[3]], [[3]]]]
      \<and> map obs (epis (traj s)) = [[[4]], [[4]]]"
  by (simp add: run_defs recording_env_def epi_init_def agg_loop.simps)

section \<open>Shape mismatches\<close>









end
